theory Spec2Isabelle
  imports Complex_Main "HOL-Library.Log_Nat"
begin

section \<open>color-converter: fractional RGB colours and 24 bit HTML colour codes\<close>

text \<open>
  A shallow embedding of \<^verbatim>\<open>color-converter.cpp\<close>. C++ \<^verbatim>\<open>int\<close> values are
  modelled as \<^typ>\<open>int\<close>: every integer the program computes on the paths below is
  bounded by a small constant (at most 256 for the multiplier of a two character
  \<^verbatim>\<open>HexToDec\<close> call), so no wrap-around can occur, except for the conversion of a
  \<^verbatim>\<open>double\<close> to \<^verbatim>\<open>int\<close>, whose range check is written out. A finite \<^verbatim>\<open>double\<close> is
  modelled as the rational number it stands for. The product by 255 in \<^verbatim>\<open>ESToHTML\<close> is
  rounded to the nearest \<^verbatim>\<open>double\<close>, as the hardware does, before it is truncated. The
  only floating point operation of \<^verbatim>\<open>HTMLToES\<close> is the division of an integer by 255;
  the model keeps the exact quotient, of which the \<^verbatim>\<open>double\<close> is the rounding, and whose
  rounded value lies between 0 and 1 whenever the exact quotient does.
\<close>

subsection \<open>Failures\<close>

text \<open>
  \<open>OutOfRange\<close> is the exception \<^verbatim>\<open>std::out_of_range\<close> thrown by \<^verbatim>\<open>string::substr\<close>;
  \<open>Undefined\<close> stands for behaviour the language leaves undefined: an index outside a
  \<^verbatim>\<open>vector\<close> or \<^verbatim>\<open>string\<close>, or a \<^verbatim>\<open>double\<close> whose truncation does not fit an \<^verbatim>\<open>int\<close>.
\<close>

datatype error = OutOfRange | Undefined

definition vector_at :: "'a list \<Rightarrow> int \<Rightarrow> error + 'a" where
  "vector_at xs i = (if 0 \<le> i \<and> i < int (length xs) then Inr (xs ! nat i) else Inl Undefined)"

text \<open>\<^verbatim>\<open>hex[pos]\<close> on a \<^verbatim>\<open>const string\<close>: position \<^verbatim>\<open>size()\<close> reads the terminating null character.\<close>

definition string_at :: "string \<Rightarrow> nat \<Rightarrow> error + char" where
  "string_at s pos =
     (if pos < length s then Inr (s ! pos)
      else if pos = length s then Inr (CHR 0x00)
      else Inl Undefined)"

text \<open>\<^verbatim>\<open>s.substr(pos, n)\<close> throws when \<^verbatim>\<open>pos > size()\<close> and is cut at the end of the string.\<close>

definition substr :: "string \<Rightarrow> nat \<Rightarrow> nat \<Rightarrow> error + string" where
  "substr s pos n = (if pos > length s then Inl OutOfRange else Inr (take n (drop pos s)))"

text \<open>The value of a \<^verbatim>\<open>char\<close> as g++ on x86 has it (signed). Under an unsigned \<^verbatim>\<open>char\<close>
  the comparisons of \<^verbatim>\<open>HexToDec\<close> give the same results, since all bounds lie below 128.\<close>

definition char_val :: "char \<Rightarrow> int" where
  "char_val c = (if (of_char c :: int) < 128 then of_char c else of_char c - 256)"

text \<open>Conversion of a \<^verbatim>\<open>double\<close> to \<^verbatim>\<open>int\<close>: truncation toward zero, undefined when the
  truncated value is not representable.\<close>

definition double_to_int :: "rat \<Rightarrow> error + int" where
  "double_to_int x =
     (let t = (if 0 \<le> x then \<lfloor>x\<rfloor> else \<lceil>x\<rceil>)
      in if - (2 ^ 31) \<le> t \<and> t \<le> 2 ^ 31 - 1 then Inr t else Inl Undefined)"

subsection \<open>Rounding to a double\<close>

text \<open>
  The result of an arithmetic operation on \<^verbatim>\<open>double\<close> values is the exact result rounded
  to the nearest value of the binary64 format, a tie going to the even significand. A
  value \<open>x\<close> with \<open>2\<^sup>e \<le> \<bar>x\<bar> < 2\<^sup>e\<^sup>+\<^sup>1\<close> is rounded to a multiple of \<open>2\<^sup>e\<^sup>-\<^sup>5\<^sup>2\<close>, and to
  a multiple of \<open>2\<^sup>-\<^sup>1\<^sup>0\<^sup>7\<^sup>4\<close> in the subnormal range. A result beyond the largest
  \<^verbatim>\<open>double\<close> is an infinity in the program; here it stays a number beyond the range of
  \<^verbatim>\<open>int\<close>, and its conversion to \<^verbatim>\<open>int\<close> is undefined either way.
\<close>

definition pow2 :: "int \<Rightarrow> rat" where
  "pow2 e = (if 0 \<le> e then 2 ^ nat e else 1 / 2 ^ nat (- e))"

text \<open>The exponent \<open>e\<close> with \<open>2\<^sup>e \<le> x < 2\<^sup>e\<^sup>+\<^sup>1\<close>, for a positive \<open>x\<close>, from the bit
  lengths of its numerator and denominator.\<close>

definition binary_exponent :: "rat \<Rightarrow> int" where
  "binary_exponent x =
     (let e0 = bitlen (fst (quotient_of x)) - bitlen (snd (quotient_of x))
      in if pow2 e0 \<le> x then e0 else e0 - 1)"

definition round_half_even :: "rat \<Rightarrow> int" where
  "round_half_even x =
     (let f = \<lfloor>x\<rfloor>;
          d = x - of_int f
      in if d < 1 / 2 then f
         else if 1 / 2 < d then f + 1
         else if even f then f else f + 1)"

definition round_double :: "rat \<Rightarrow> rat" where
  "round_double x =
     (if x = 0 then 0
      else
        let q = max (binary_exponent \<bar>x\<bar> - 52) (- 1074);
            m = round_half_even (\<bar>x\<bar> / pow2 q)
        in sgn x * of_int m * pow2 q)"

subsection \<open>ToHex\<close>

definition DecToHex :: "char list" where
  "DecToHex = ''0123456789ABCDEF''"

function ToHex :: "int \<Rightarrow> error + string" where
  "ToHex val =
     (if val \<ge> 16 then
        (case vector_at DecToHex (val div 16) of
           Inl e \<Rightarrow> Inl e
         | Inr c \<Rightarrow> (case ToHex (val mod 16) of Inl e \<Rightarrow> Inl e | Inr s \<Rightarrow> Inr (c # s)))
      else
        (case vector_at DecToHex val of
           Inl e \<Rightarrow> Inl e
         | Inr c \<Rightarrow> Inr ([] @ [c])))"
  by pat_completeness auto
termination
  by (relation "measure (\<lambda>val. if val \<ge> 16 then 1 else 0)") auto

declare ToHex.simps [simp del]

subsection \<open>HexToDec, the conversion inside HTMLToES\<close>

definition converter :: "(char \<times> char) list" where
  "converter = [(CHR ''0'', CHR ''9''), (CHR ''A'', CHR ''F''), (CHR ''a'', CHR ''f'')]"

text \<open>The inner loop over \<open>converter\<close>, for the character \<open>c\<close> at the iterator.\<close>

fun HexToDec_bounds :: "char \<Rightarrow> int \<Rightarrow> (char \<times> char) list \<Rightarrow> int \<Rightarrow> int" where
  "HexToDec_bounds c multiplier [] result = result"
| "HexToDec_bounds c multiplier (bounds # rest) result =
     HexToDec_bounds c multiplier rest
       (if char_val c \<ge> char_val (fst bounds) \<and> char_val c \<le> char_val (snd bounds)
        then result + (char_val c - char_val (fst bounds)) * multiplier
        else result)"

text \<open>The outer loop, from \<^verbatim>\<open>rbegin()\<close> to \<^verbatim>\<open>rend()\<close>, the multiplier growing by 16.\<close>

fun HexToDec_loop :: "string \<Rightarrow> int \<Rightarrow> int \<Rightarrow> int" where
  "HexToDec_loop [] multiplier result = result"
| "HexToDec_loop (c # rest) multiplier result =
     HexToDec_loop rest (multiplier * 16) (HexToDec_bounds c multiplier converter result)"

definition HexToDec :: "string \<Rightarrow> int" where
  "HexToDec input = HexToDec_loop (rev input) 1 0"

subsection \<open>HTMLToES\<close>

function HTMLToES_loop :: "string \<Rightarrow> nat \<Rightarrow> rat list \<Rightarrow> error + rat list" where
  "HTMLToES_loop hex i result =
     (if i < 6 then
        (case substr hex i 2 of
           Inl e \<Rightarrow> Inl e
         | Inr pair \<Rightarrow> HTMLToES_loop hex (i + 2) (result @ [of_int (HexToDec pair) / 255]))
      else Inr result)"
  by pat_completeness auto
termination
  by (relation "measure (\<lambda>(hex, i, result). 6 - i)") auto

declare HTMLToES_loop.simps [simp del]

definition HTMLToES :: "string \<Rightarrow> error + rat list" where
  "HTMLToES hex =
     (case string_at hex 0 of
        Inl e \<Rightarrow> Inl e
      | Inr c \<Rightarrow>
          if c \<noteq> CHR ''#'' then Inr []
          else if length hex < 7 then Inr []
          else HTMLToES_loop hex 1 [])"

subsection \<open>Records of a data file\<close>

text \<open>
  Modelled from the spec: the classes \<^verbatim>\<open>DataFile\<close> and \<^verbatim>\<open>DataNode\<close> of
  \<^verbatim>\<open>shared/\<close> are not part of the sources at hand. A record is "a named entity with an
  ordered sequence of string fields (tokens)"; a file is the list of its records.
  \<^verbatim>\<open>Token(i)\<close> is the \<open>i\<close>-th token and \<^verbatim>\<open>Size()\<close> the number of tokens. The
  conversion \<^verbatim>\<open>Value(i)\<close> of a token to a \<^verbatim>\<open>double\<close> is a parameter of the functions
  that call it; it stands for a function that returns values of the \<^verbatim>\<open>double\<close> format.
\<close>

record DataNode =
  tokens :: "string list"

text \<open>Modelled from the spec: \<^verbatim>\<open>DataNode::Token\<close>, the token at an index of the record's
  sequence of tokens; an index outside the sequence is undefined.\<close>

definition Token :: "DataNode \<Rightarrow> int \<Rightarrow> error + string" where
  "Token node index = vector_at (tokens node) index"

text \<open>Modelled from the spec: \<^verbatim>\<open>DataNode::Size\<close>, the number of tokens of the record.\<close>

definition Size :: "DataNode \<Rightarrow> int" where
  "Size node = int (length (tokens node))"

text \<open>
  Modelled from the spec: what a numeric field is. The fields after the name "are
  decimal fractions": here an optional minus sign, then digits with at most one decimal
  point among them, and at least one digit. \<open>numeric_fields\<close> counts the fields after the
  name that are numeric. No function of the program uses either definition.
\<close>

definition decimal_fraction :: "string \<Rightarrow> bool" where
  "decimal_fraction token =
     (let body = (case token of [] \<Rightarrow> [] | c # rest \<Rightarrow> if c = CHR ''-'' then rest else token);
          digits = filter (\<lambda>c. c \<noteq> CHR ''.'') body
      in digits \<noteq> [] \<and> list_all (\<lambda>c. c \<in> set ''0123456789'') digits
           \<and> length body \<le> length digits + 1)"

definition numeric_fields :: "DataNode \<Rightarrow> nat" where
  "numeric_fields node = length (filter decimal_fraction (drop 2 (tokens node)))"

subsection \<open>ESToHTML\<close>

function ESToHTML_loop ::
  "(DataNode \<Rightarrow> int \<Rightarrow> rat) \<Rightarrow> DataNode \<Rightarrow> int \<Rightarrow> int \<Rightarrow> string \<Rightarrow> error + string" where
  "ESToHTML_loop Value node index i result =
     (if i < 3 then
        (case double_to_int (round_double (Value node (index + i) * 255)) of
           Inl e \<Rightarrow> Inl e
         | Inr val0 \<Rightarrow>
             (let val1 = min 255 val0;
                  val2 = max 0 val1
              in case ToHex val2 of
                   Inl e \<Rightarrow> Inl e
                 | Inr digits \<Rightarrow> ESToHTML_loop Value node index (i + 1) (result @ digits)))
      else Inr result)"
  by pat_completeness auto
termination
  by (relation "measure (\<lambda>(Value, node, index, i, result). nat (3 - i))") auto

declare ESToHTML_loop.simps [simp del]

definition ESToHTML :: "(DataNode \<Rightarrow> int \<Rightarrow> rat) \<Rightarrow> DataNode \<Rightarrow> int \<Rightarrow> error + string" where
  "ESToHTML Value node index = ESToHTML_loop Value node index 0 ''#''"

subsection \<open>ESFileToHTML\<close>

fun ESFileToHTML_loop ::
  "(DataNode \<Rightarrow> int \<Rightarrow> rat) \<Rightarrow> DataNode list \<Rightarrow> (string \<times> string) list
     \<Rightarrow> error + (string \<times> string) list" where
  "ESFileToHTML_loop Value [] results = Inr results"
| "ESFileToHTML_loop Value (node # rest) results =
     (case Token node 0 of
        Inl e \<Rightarrow> Inl e
      | Inr keyword \<Rightarrow>
          if keyword = ''color'' \<and> Size node \<ge> 5 then
            (case Token node 1 of
               Inl e \<Rightarrow> Inl e
             | Inr name \<Rightarrow>
                 (case ESToHTML Value node 2 of
                    Inl e \<Rightarrow> Inl e
                  | Inr html \<Rightarrow> ESFileToHTML_loop Value rest (results @ [(name, html)])))
          else ESFileToHTML_loop Value rest results)"

text \<open>What the second loop writes to standard output.\<close>

fun ESFileToHTML_print :: "(string \<times> string) list \<Rightarrow> string" where
  "ESFileToHTML_print [] = []"
| "ESFileToHTML_print (it # rest) =
     [CHR 0x22] @ fst it @ [CHR 0x22, CHR '' ''] @ snd it @ [CHR 0x0A] @ ESFileToHTML_print rest"

definition ESFileToHTML :: "(DataNode \<Rightarrow> int \<Rightarrow> rat) \<Rightarrow> DataNode list \<Rightarrow> error + string" where
  "ESFileToHTML Value file =
     (case ESFileToHTML_loop Value file [] of
        Inl e \<Rightarrow> Inl e
      | Inr results \<Rightarrow> Inr (ESFileToHTML_print results))"

subsection \<open>HTMLFileToES\<close>

fun HTMLFileToES_loop ::
  "DataNode list \<Rightarrow> (string \<times> rat list) list \<Rightarrow> error + (string \<times> rat list) list" where
  "HTMLFileToES_loop [] results = Inr results"
| "HTMLFileToES_loop (node # rest) results =
     (case Token node 0 of
        Inl e \<Rightarrow> Inl e
      | Inr keyword \<Rightarrow>
          if keyword = ''color'' \<and> Size node \<ge> 3 then
            (case Token node 1 of
               Inl e \<Rightarrow> Inl e
             | Inr name \<Rightarrow>
                 (case Token node 2 of
                    Inl e \<Rightarrow> Inl e
                  | Inr hex \<Rightarrow>
                      (case HTMLToES hex of
                         Inl e \<Rightarrow> Inl e
                       | Inr es \<Rightarrow> HTMLFileToES_loop rest (results @ [(name, es)]))))
          else HTMLFileToES_loop rest results)"

text \<open>The inner printing loop: a space and the value, for every value. How the stream
  formats a \<^verbatim>\<open>double\<close> is the parameter \<open>print_double\<close>.\<close>

fun HTMLFileToES_values :: "(rat \<Rightarrow> string) \<Rightarrow> rat list \<Rightarrow> string" where
  "HTMLFileToES_values print_double [] = []"
| "HTMLFileToES_values print_double (val # rest) =
     [CHR '' ''] @ print_double val @ HTMLFileToES_values print_double rest"

fun HTMLFileToES_print :: "(rat \<Rightarrow> string) \<Rightarrow> (string \<times> rat list) list \<Rightarrow> string" where
  "HTMLFileToES_print print_double [] = []"
| "HTMLFileToES_print print_double (it # rest) =
     ''color'' @ [CHR 0x22] @ fst it @ [CHR 0x22]
       @ HTMLFileToES_values print_double (snd it) @ [CHR 0x0A]
       @ HTMLFileToES_print print_double rest"

definition HTMLFileToES :: "(rat \<Rightarrow> string) \<Rightarrow> DataNode list \<Rightarrow> error + string" where
  "HTMLFileToES print_double file =
     (case HTMLFileToES_loop file [] of
        Inl e \<Rightarrow> Inl e
      | Inr results \<Rightarrow> Inr (HTMLFileToES_print print_double results))"

section \<open>Properties\<close>

subsection \<open>Auxiliary facts\<close>

text \<open>\<open>binary_exponent\<close> is the exponent of the binade of a positive number.\<close>

lemma pow2_powi: "pow2 e = 2 powi e"
  by (simp add: pow2_def power_int_def inverse_eq_divide power_one_over)

lemma bitlen_rat_bounds:
  assumes "0 < p"
  shows "2 powi (bitlen p - 1) \<le> (of_int p :: rat)" and "(of_int p :: rat) < 2 powi (bitlen p)"
proof -
  have b: "2 ^ nat (bitlen p - 1) \<le> p" "p < 2 ^ nat (bitlen p)"
    using bitlen_bounds [OF assms] by simp_all
  have one: "1 \<le> bitlen p"
    using assms bitlen_eq_zero_iff [of p] bitlen_nonneg [of p] by linarith
  have "(of_int (2 ^ nat (bitlen p - 1)) :: rat) \<le> of_int p"
    using b(1) by (simp only: of_int_le_iff)
  then show "2 powi (bitlen p - 1) \<le> (of_int p :: rat)"
    using one by (simp add: power_int_def)
  have "(of_int p :: rat) < of_int (2 ^ nat (bitlen p))"
    using b(2) by (simp only: of_int_less_iff)
  then show "(of_int p :: rat) < 2 powi (bitlen p)"
    using one by (simp add: power_int_def)
qed

lemma binary_exponent_bounds:
  assumes "0 < x"
  shows "pow2 (binary_exponent x) \<le> x \<and> x < pow2 (binary_exponent x + 1)"
proof -
  obtain p q where pq: "quotient_of x = (p, q)" by (cases "quotient_of x")
  have q: "0 < q" using quotient_of_denom_pos [OF pq] .
  have x: "x = of_int p / of_int q" using quotient_of_div [OF pq] .
  have p: "0 < p" using assms q unfolding x by (simp add: zero_less_divide_iff)
  define e0 where "e0 = bitlen p - bitlen q"
  define P :: rat where "P = of_int p"
  define Q :: rat where "Q = of_int q"
  define A :: rat where "A = 2 powi (bitlen p - 1)"
  define B :: rat where "B = 2 powi (bitlen q - 1)"
  have PQ: "0 < P" "0 < Q" using p q by (simp_all add: P_def Q_def)
  have AB: "0 < A" "0 < B" by (simp_all add: A_def B_def)
  have A2: "2 powi (bitlen p) = 2 * A"
    unfolding A_def by (simp add: power_int_diff)
  have B2: "2 powi (bitlen q) = 2 * B"
    unfolding B_def by (simp add: power_int_diff)
  have bp: "A \<le> P" "P < 2 * A"
    using bitlen_rat_bounds [OF p] unfolding A2 by (simp_all add: A_def P_def)
  have bq: "B \<le> Q" "Q < 2 * B"
    using bitlen_rat_bounds [OF q] unfolding B2 by (simp_all add: B_def Q_def)
  have e0: "pow2 e0 = A / B"
    by (simp add: pow2_powi e0_def A_def B_def power_int_diff)
  have e0m: "pow2 (e0 - 1) = A / (2 * B)"
    by (simp add: pow2_powi power_int_diff e0 [unfolded pow2_powi])
  have e0p: "pow2 (e0 + 1) = 2 * A / B"
    by (simp add: pow2_powi power_int_add e0 [unfolded pow2_powi])
  have xPQ: "x = P / Q" by (simp add: x P_def Q_def)
  have "A * Q < P * (2 * B)"
    using bp(1) bq(2) PQ AB by (intro mult_le_less_imp_less) simp_all
  then have lo: "pow2 (e0 - 1) < x"
    unfolding e0m xPQ using PQ AB by (simp add: field_simps)
  have "P * B < 2 * A * Q"
    using bp(2) bq(1) PQ AB by (intro mult_less_le_imp_less) simp_all
  then have hi: "x < pow2 (e0 + 1)"
    unfolding e0p xPQ using PQ AB by (simp add: field_simps)
  show ?thesis
    using lo hi pq by (auto simp: binary_exponent_def e0_def Let_def)
qed

text \<open>Rounding leaves the products of the examples below as they are, and it takes the
  product of 255 and the \<^verbatim>\<open>double\<close> nearest to 0.6, which lies just below 153, to 153.\<close>

lemma round_double_examples:
  "round_double (- 255) = - 255" "round_double 510 = 510" "round_double (255 / 2) = 255 / 2"
  "round_double (5404319552844595 / 2 ^ 53) = 5404319552844595 / 2 ^ 53"
  "5404319552844595 / 2 ^ 53 * 255 < (153 :: rat)"
  "round_double (5404319552844595 / 2 ^ 53 * 255) = 153"
  by code_simp+

lemma ToHex_one_digit: "0 \<le> val \<Longrightarrow> val < 16 \<Longrightarrow> ToHex val = Inr [DecToHex ! nat val]"
  by (subst ToHex.simps) (simp add: vector_at_def DecToHex_def)

lemma ToHex_two_digits:
  assumes "16 \<le> val" and "val < 256"
  shows "ToHex val = Inr [DecToHex ! nat (val div 16), DecToHex ! nat (val mod 16)]"
proof -
  have hi: "0 \<le> val div 16 \<and> val div 16 < 16" using assms by auto
  have lo: "ToHex (val mod 16) = Inr [DecToHex ! nat (val mod 16)]"
    by (rule ToHex_one_digit) simp_all
  show ?thesis
    using assms hi lo by (subst ToHex.simps) (simp add: vector_at_def DecToHex_def)
qed

lemma char_val_bounds [simp]:
  "char_val CHR ''0'' = 48" "char_val CHR ''9'' = 57"
  "char_val CHR ''A'' = 65" "char_val CHR ''F'' = 70"
  "char_val CHR ''a'' = 97" "char_val CHR ''f'' = 102"
  by (simp_all add: char_val_def)

lemma HexToDec_bounds_converter:
  "HexToDec_bounds c m converter r =
     r + (if 48 \<le> char_val c \<and> char_val c \<le> 57 then (char_val c - 48) * m
          else if 65 \<le> char_val c \<and> char_val c \<le> 70 then (char_val c - 65) * m
          else if 97 \<le> char_val c \<and> char_val c \<le> 102 then (char_val c - 97) * m
          else 0)"
  by (simp add: converter_def)

lemma HexToDec_bounds_linear:
  "HexToDec_bounds c m converter r = r + m * HexToDec_bounds c 1 converter 0"
  by (simp add: HexToDec_bounds_converter)

lemma digit_range: "0 \<le> HexToDec_bounds c 1 converter 0 \<and> HexToDec_bounds c 1 converter 0 \<le> 9"
  by (simp add: HexToDec_bounds_converter)

lemma HexToDec_single: "HexToDec [d] = HexToDec_bounds d 1 converter 0"
  by (simp add: HexToDec_def)

lemma HexToDec_pair:
  "HexToDec [c, d] = 16 * HexToDec_bounds c 1 converter 0 + HexToDec_bounds d 1 converter 0"
  by (simp add: HexToDec_def HexToDec_bounds_linear [of c 16])

lemma hex_digit_chars:
  assumes "c \<notin> set ''0123456789ABCDEFabcdef''"
  shows "\<not> (48 \<le> char_val c \<and> char_val c \<le> 57)"
    and "\<not> (65 \<le> char_val c \<and> char_val c \<le> 70)"
    and "\<not> (97 \<le> char_val c \<and> char_val c \<le> 102)"
proof -
  define n where "n = (of_char c :: nat)"
  have c: "char_of n = c" by (simp add: n_def)
  have small: "n mod 256 = n" unfolding n_def by simp
  have less: "n < 256" unfolding n_def by simp
  have "(of_char c :: int) = int n"
    by (simp add: n_def of_nat_of_char)
  then have cv: "char_val c = (if n < 128 then int n else int n - 256)"
    by (simp add: char_val_def)
  have "n \<notin> {48, 49, 50, 51, 52, 53, 54, 55, 56, 57, 65, 66, 67, 68, 69, 70, 97, 98, 99, 100, 101, 102}"
    using assms unfolding c [symmetric]
    by (simp add: char_of_eq_iff take_bit_eq_mod small)
  then have n: "\<not> (48 \<le> n \<and> n \<le> 57)" "\<not> (65 \<le> n \<and> n \<le> 70)" "\<not> (97 \<le> n \<and> n \<le> 102)"
    by auto arith+
  show "\<not> (48 \<le> char_val c \<and> char_val c \<le> 57)" using n cv less by (auto split: if_splits)
  show "\<not> (65 \<le> char_val c \<and> char_val c \<le> 70)" using n cv less by (auto split: if_splits)
  show "\<not> (97 \<le> char_val c \<and> char_val c \<le> 102)" using n cv less by (auto split: if_splits)
qed

lemma HTMLToES_short: "length hex < 7 \<Longrightarrow> HTMLToES hex = Inr []"
  by (simp add: HTMLToES_def string_at_def)

lemma HTMLToES_no_hash: "hex = [] \<or> hd hex \<noteq> CHR ''#'' \<Longrightarrow> HTMLToES hex = Inr []"
  by (cases hex) (auto simp: HTMLToES_def string_at_def)

lemma HTMLToES_long:
  assumes "hex = CHR ''#'' # a # b # c # d # e # f # rest"
  shows "HTMLToES hex =
    Inr [of_int (HexToDec [a, b]) / 255, of_int (HexToDec [c, d]) / 255,
         of_int (HexToDec [e, f]) / 255]"
  unfolding assms
  by (simp add: HTMLToES_def string_at_def HTMLToES_loop.simps substr_def)

lemma long_hex_cases:
  assumes "hex \<noteq> []" "hd hex = CHR ''#''" "7 \<le> length hex"
  obtains a b c d e f rest where "hex = CHR ''#'' # a # b # c # d # e # f # rest"
proof -
  from assms(3) obtain h a b c d e f rest where "hex = h # a # b # c # d # e # f # rest"
    by (auto simp: numeral_eq_Suc Suc_le_length_iff)
  with assms(2) that show thesis by simp
qed

lemma HexToDec_pair_range: "0 \<le> HexToDec [c, d] \<and> HexToDec [c, d] \<le> 153"
  using digit_range [of c] digit_range [of d] by (simp add: HexToDec_pair)

text \<open>A channel value whose product by 255 does not fit an \<^verbatim>\<open>int\<close> leaves the
  behaviour of \<open>ESToHTML\<close> undefined.\<close>

lemma ESToHTML_far_out_of_range:
  "ESToHTML (\<lambda>node i. 10000000000) node 0 = Inl Undefined"
  by code_simp

lemma ESToHTML_rounds_product:
  "ESToHTML (\<lambda>node i. 5404319552844595 / 2 ^ 53) node 0 = Inr ''#999999''"
  by code_simp

lemma ESFileToHTML_loop_skip:
  "tokens node \<noteq> [] \<Longrightarrow> Size node < 5 \<Longrightarrow>
   ESFileToHTML_loop Value (node # rest) results = ESFileToHTML_loop Value rest results"
  by (simp add: Token_def vector_at_def)

lemma ESFileToHTML_loop_append:
  "ESFileToHTML_loop Value (xs @ ys) results =
     (case ESFileToHTML_loop Value xs results of
        Inl e \<Rightarrow> Inl e
      | Inr r \<Rightarrow> ESFileToHTML_loop Value ys r)"
  by (induction xs arbitrary: results) (simp_all split: sum.splits)

lemma HTMLFileToES_loop_append:
  "HTMLFileToES_loop (xs @ ys) results =
     (case HTMLFileToES_loop xs results of
        Inl e \<Rightarrow> Inl e
      | Inr r \<Rightarrow> HTMLFileToES_loop ys r)"
  by (induction xs arbitrary: results) (simp_all split: sum.splits)

lemma HTMLFileToES_loop_results:
  "HTMLFileToES_loop xs results =
     (case HTMLFileToES_loop xs [] of
        Inl e \<Rightarrow> Inl e
      | Inr r \<Rightarrow> Inr (results @ r))"
proof (induction xs arbitrary: results)
  case Nil
  show ?case by simp
next
  case (Cons node xs)
  have step: "HTMLFileToES_loop xs (results @ [p]) =
      (case HTMLFileToES_loop xs [p] of Inl e \<Rightarrow> Inl e | Inr r \<Rightarrow> Inr (results @ r))" for p
    by (subst Cons.IH [of "results @ [p]"], subst Cons.IH [of "[p]"])
       (simp split: sum.splits)
  show ?case
    by (simp add: step Cons.IH [of results] split: sum.splits)
qed

lemma HTMLFileToES_print_append:
  "HTMLFileToES_print print_double (xs @ ys) =
     HTMLFileToES_print print_double xs @ HTMLFileToES_print print_double ys"
  by (induction xs) simp_all

lemma HTMLFileToES_loop_empty_result:
  assumes "tokens node = ''color'' # name # hex # others" and "HTMLToES hex = Inr []"
  shows "HTMLFileToES_loop (node # rest) results = HTMLFileToES_loop rest (results @ [(name, [])])"
  using assms by (simp add: Token_def vector_at_def Size_def)

subsection \<open>Encoding a byte\<close>

text \<open>
  Claim C1 says that \<open>ToHex\<close> returns exactly two zero-padded hexadecimal characters for
  every value from 0 to 255, in particular \<^verbatim>\<open>"00"\<close> for 0. The recursion stops at a value
  below 16 with a single character, so the code returns the one character string
  \<^verbatim>\<open>"0"\<close> for 0: the leading zero is missing.
\<close>

theorem ToHex_zero_is_one_character: "ToHex 0 = Inr ''0''"
  by code_simp

subsection \<open>Decoding a pair of characters\<close>

text \<open>
  Claim C4 says that decoding the encoding of a value from 0 to 255 gives the value back.
  For 255 the encoding is \<^verbatim>\<open>"FF"\<close>, and \<open>HexToDec\<close> decodes it to 85: a letter
  contributes its distance from \<^verbatim>\<open>'A'\<close> (or \<^verbatim>\<open>'a'\<close>), that is 0 to 5 instead of 10 to 15.
\<close>

theorem HexToDec_ToHex_255: "ToHex 255 = Inr ''FF'' \<and> HexToDec ''FF'' = 85"
  by code_simp

text \<open>
  Claim C6: in a two character input of \<open>HexToDec\<close>, a character outside \<^verbatim>\<open>'0'-'9'\<close>,
  \<^verbatim>\<open>'A'-'F'\<close> and \<^verbatim>\<open>'a'-'f'\<close> contributes 0 to the decoded integer, whichever of the two
  positions it is in; the decode is not rejected (\<open>HexToDec\<close> has no failure result), and
  the result is what the other character alone contributes at its position.
\<close>

theorem HexToDec_ignores_non_hex:
  assumes "c \<notin> set ''0123456789ABCDEFabcdef''"
  shows "HexToDec [c, d] = HexToDec [d] \<and> HexToDec [d, c] = 16 * HexToDec [d]"
proof -
  have "HexToDec_bounds c 1 converter 0 = 0"
    using hex_digit_chars [OF assms] by (auto simp: HexToDec_bounds_converter)
  then show ?thesis by (simp add: HexToDec_pair HexToDec_single)
qed

theorem HexToDec_ignores_non_hex_witness:
  "CHR ''g'' \<notin> set ''0123456789ABCDEFabcdef'' \<and> HexToDec ''g7'' = 7 \<and> HexToDec ''7g'' = 112"
proof -
  have h: "CHR ''g'' \<notin> set ''0123456789ABCDEFabcdef''" by simp
  have "HexToDec ''7'' = 7" by (simp add: HexToDec_single HexToDec_bounds_converter char_val_def)
  with h HexToDec_ignores_non_hex [OF h, of "CHR ''7''"] show ?thesis by simp
qed

subsection \<open>Decoding a colour code\<close>

text \<open>
  Claim C5: for every input string, \<open>HTMLToES\<close> returns the empty sequence, without
  raising an exception, exactly when the string does not start with \<^verbatim>\<open>'#'\<close> (the empty
  string included) or is shorter than 7 characters. The two inputs the claim names,
  \<^verbatim>\<open>"123456"\<close> and \<^verbatim>\<open>"#12"\<close>, are the instances below.
\<close>

theorem HTMLToES_empty_iff:
  "HTMLToES hex = Inr [] \<longleftrightarrow> (hex = [] \<or> hd hex \<noteq> CHR ''#'') \<or> length hex < 7"
proof (cases "(hex = [] \<or> hd hex \<noteq> CHR ''#'') \<or> length hex < 7")
  case True
  then show ?thesis using HTMLToES_short HTMLToES_no_hash by blast
next
  case False
  then obtain a b c d e f rest where "hex = CHR ''#'' # a # b # c # d # e # f # rest"
    by (auto elim: long_hex_cases)
  then have "HTMLToES hex \<noteq> Inr []" by (simp add: HTMLToES_long)
  with False show ?thesis by simp
qed

theorem HTMLToES_empty_iff_witness:
  "HTMLToES ''123456'' = Inr [] \<and> HTMLToES ''#12'' = Inr []"
  using HTMLToES_empty_iff [of "''123456''"] HTMLToES_empty_iff [of "''#12''"] by simp

text \<open>
  Claim C10: for every input string (empty, with characters that are no hexadecimal
  digits, with characters after position 6), \<open>HTMLToES\<close> returns a sequence, with no
  failure from an access out of range; the sequence has length 0 or 3 and each of its
  values lies between 0 and 1, since every decoded pair of characters lies between 0
  and 255. The quotient of an integer from 0 to 255 by 255 lies between 0 and 1 in
  \<^verbatim>\<open>double\<close> arithmetic as it does here.
\<close>

theorem HTMLToES_total_and_bounded:
  "(\<exists>es. HTMLToES hex = Inr es \<and> (length es = 0 \<or> length es = 3)
      \<and> (\<forall>x \<in> set es. 0 \<le> x \<and> x \<le> 1))
   \<and> 0 \<le> HexToDec [c, d] \<and> HexToDec [c, d] \<le> 255"
proof -
  have pair: "0 \<le> HexToDec [a, b] \<and> HexToDec [a, b] \<le> 255" for a b
    using HexToDec_pair_range [of a b] by simp
  have "\<exists>es. HTMLToES hex = Inr es \<and> (length es = 0 \<or> length es = 3)
      \<and> (\<forall>x \<in> set es. 0 \<le> x \<and> x \<le> 1)"
  proof (cases "(hex = [] \<or> hd hex \<noteq> CHR ''#'') \<or> length hex < 7")
    case True
    then have "HTMLToES hex = Inr []" using HTMLToES_short HTMLToES_no_hash by blast
    then show ?thesis by simp
  next
    case False
    then obtain a b c d e f rest where "hex = CHR ''#'' # a # b # c # d # e # f # rest"
      by (auto elim: long_hex_cases)
    then show ?thesis using pair [of a b] pair [of c d] pair [of e f]
      by (simp add: HTMLToES_long)
  qed
  with pair show ?thesis by simp
qed

theorem HTMLToES_total_and_bounded_witness:
  "HTMLToES ''#zz09FF+more'' = Inr [0, 3 / 85, 1 / 3]
   \<and> (0 :: rat) \<le> 3 / 85 \<and> (3 / 85 :: rat) \<le> 1 \<and> (0 :: rat) \<le> 1 / 3 \<and> (1 / 3 :: rat) \<le> 1
   \<and> HexToDec ''zz'' = 0"
proof -
  have e: "HTMLToES ''#zz09FF+more'' = Inr [0, 3 / 85, 1 / 3]" by code_simp
  have z: "HexToDec ''zz'' = 0" by code_simp
  show ?thesis
    using HTMLToES_total_and_bounded [of "''#zz09FF+more''" "CHR ''z''" "CHR ''z''"] e z
    by simp
qed

subsection \<open>Encoding a colour\<close>

text \<open>
  Claim C2 says that for three channel values, however far outside the range from 0 to 1,
  \<open>ESToHTML\<close> returns \<^verbatim>\<open>#\<close> and exactly six hexadecimal digits, in particular
  \<^verbatim>\<open>#00FF7F\<close> for the channels \<^verbatim>\<open>-1.0, 2.0, 0.5\<close>. The code truncates and clamps as
  claimed (to 0, 255 and 127), but \<open>ToHex\<close> writes the 0 as one character, so the result
  is \<^verbatim>\<open>#0FF7F\<close>, with five digits.
\<close>

theorem ESToHTML_clamping_example:
  "ESToHTML (\<lambda>node i. [- 1, 2, 1 / 2] ! nat i) node 0 = Inr ''#0FF7F''"
  by code_simp

subsection \<open>Round trips\<close>

text \<open>
  Claim C3 says that encoding the decoding of a string \<^verbatim>\<open>#\<close> plus six hexadecimal digits
  gives the string back, in upper case. For \<^verbatim>\<open>#000000\<close> the decoding is three times 0
  and its encoding is \<^verbatim>\<open>#000\<close>, from the missing leading zero of \<open>ToHex\<close>; for
  \<^verbatim>\<open>#A0A0A0\<close> the result is \<^verbatim>\<open>#000\<close> as well, since \<open>HexToDec\<close> decodes \<^verbatim>\<open>"A0"\<close> to 0.
\<close>

theorem ESToHTML_HTMLToES_black:
  "(case HTMLToES ''#000000'' of
      Inl e \<Rightarrow> Inl e
    | Inr es \<Rightarrow> ESToHTML (\<lambda>node i. es ! nat i) node 0) = Inr ''#000''
   \<and> (case HTMLToES ''#A0A0A0'' of
      Inl e \<Rightarrow> Inl e
    | Inr es \<Rightarrow> ESToHTML (\<lambda>node i. es ! nat i) node 0) = Inr ''#000''"
  by code_simp

text \<open>
  Claim C8 says that for three fractions between 0 and 1, decoding their encoding gives
  three fractions, each within 1/255 of the original. For the fractions 0, 0, 0 the
  encoding is \<^verbatim>\<open>#000\<close>, shorter than 7 characters, and its decoding is the empty
  sequence. For 1, 1, 1 the encoding is \<^verbatim>\<open>#FFFFFF\<close>, of which \<open>HexToDec\<close> decodes each
  pair to 85, that is to the fraction 85/255, which is 2/3 away from 1.
\<close>

theorem HTMLToES_ESToHTML_black:
  "(case ESToHTML (\<lambda>node i. [0, 0, 0] ! nat i) node 0 of
      Inl e \<Rightarrow> Inl e
    | Inr hex \<Rightarrow> HTMLToES hex) = Inr []
   \<and> ESToHTML (\<lambda>node i. [1, 1, 1] ! nat i) node 0 = Inr ''#FFFFFF''
   \<and> HexToDec ''FF'' = 85"
  by code_simp

subsection \<open>Converting the records of a file\<close>

text \<open>
  Claim C7 says that in \<open>ESFileToHTML\<close> every record with fewer than 3 numeric fields
  after the name is skipped entirely. As worded this fails: the code counts the tokens
  of a record (\<^verbatim>\<open>node.Size() >= 5\<close>) and does not test whether a field is a number. The
  record \<^verbatim>\<open>color Bad 1 0 x\<close> has two numeric fields and a third field that is no number;
  it has 5 tokens, so it is converted and gives an output line.
\<close>

theorem ESFileToHTML_emits_record_with_two_numbers:
  "numeric_fields \<lparr>tokens = [''color'', ''Bad'', ''1'', ''0'', ''x'']\<rparr> = 2
   \<and> ESFileToHTML (\<lambda>node i. if tokens node ! nat i = ''1'' then 1 else 0)
         [\<lparr>tokens = [''color'', ''Bad'', ''1'', ''0'', ''x'']\<rparr>]
       = Inr ([CHR 0x22] @ ''Bad'' @ [CHR 0x22] @ '' #FF00'' @ [CHR 0x0A])"
  by code_simp

text \<open>
  Claim C7, amended: in \<open>ESFileToHTML\<close>, a record with fewer than 3 fields after the
  name, numeric or not, that is with fewer than 5 tokens counting the keyword and the
  name, is skipped entirely. The output of a file that holds such a record, anywhere, is
  the output of the file without it, whether that is text or a failure: nothing is
  written and nothing is reported for it. The record \<^verbatim>\<open>color "Bad" 1 0\<close> alone gives the
  empty output.
\<close>

theorem ESFileToHTML_skips_short_record:
  assumes "tokens node \<noteq> []" and "Size node < 5"
  shows "ESFileToHTML Value (before @ [node] @ after) = ESFileToHTML Value (before @ after)"
  using assms
  by (simp add: ESFileToHTML_def ESFileToHTML_loop_append ESFileToHTML_loop_skip
        del: ESFileToHTML_loop.simps(2) split: sum.splits)

theorem ESFileToHTML_skips_short_record_witness:
  "ESFileToHTML (\<lambda>node i. if tokens node ! nat i = ''1'' then 1 else 0)
     [\<lparr>tokens = [''color'', ''White'', ''1'', ''1'', ''1'']\<rparr>,
      \<lparr>tokens = [''color'', ''Bad'', ''1'', ''0'']\<rparr>]
   = Inr ([CHR 0x22] @ ''White'' @ [CHR 0x22] @ '' #FFFFFF'' @ [CHR 0x0A])
   \<and> ESFileToHTML (\<lambda>node i. if tokens node ! nat i = ''1'' then 1 else 0)
     [\<lparr>tokens = [''color'', ''Bad'', ''1'', ''0'']\<rparr>] = Inr []"
proof -
  let ?V = "\<lambda>node i. if tokens node ! nat i = ''1'' then (1::rat) else 0"
  let ?white = "\<lparr>tokens = [''color'', ''White'', ''1'', ''1'', ''1'']\<rparr>"
  let ?bad = "\<lparr>tokens = [''color'', ''Bad'', ''1'', ''0'']\<rparr>"
  have t: "tokens ?bad \<noteq> []" by simp
  have s: "Size ?bad < 5" by (simp add: Size_def)
  have w: "ESFileToHTML ?V [?white]
      = Inr ([CHR 0x22] @ ''White'' @ [CHR 0x22] @ '' #FFFFFF'' @ [CHR 0x0A])"
    by code_simp
  have e: "ESFileToHTML ?V [] = Inr []" by code_simp
  show ?thesis
    using ESFileToHTML_skips_short_record [OF t s, of ?V "[?white]" "[]"] ESFileToHTML_skips_short_record [OF t s, of ?V "[]" "[]"] w e by simp
qed

text \<open>
  Claim C9: in \<open>HTMLFileToES\<close>, a record \<^verbatim>\<open>color <name> <hex> ...\<close> on whose third token
  \<open>HTMLToES\<close> returns the empty sequence is not skipped: it gives the line
  \<^verbatim>\<open>color"<name>"\<close>, with no value after the name, between the lines of the records
  before it and those of the records after it.
\<close>

theorem HTMLFileToES_empty_conversion:
  assumes "tokens node = ''color'' # name # hex # others"
    and "HTMLToES hex = Inr []"
    and "HTMLFileToES print_double before = Inr out1"
    and "HTMLFileToES print_double after = Inr out2"
  shows "HTMLFileToES print_double (before @ [node] @ after) =
     Inr (out1 @ ''color'' @ [CHR 0x22] @ name @ [CHR 0x22] @ [CHR 0x0A] @ out2)"
proof -
  from assms(3) obtain r1 where r1: "HTMLFileToES_loop before [] = Inr r1"
    and o1: "out1 = HTMLFileToES_print print_double r1"
    by (auto simp: HTMLFileToES_def split: sum.splits)
  from assms(4) obtain r2 where r2: "HTMLFileToES_loop after [] = Inr r2"
    and o2: "out2 = HTMLFileToES_print print_double r2"
    by (auto simp: HTMLFileToES_def split: sum.splits)
  have "HTMLFileToES_loop (before @ [node] @ after) [] = HTMLFileToES_loop after (r1 @ [(name, [])])"
    by (simp add: HTMLFileToES_loop_append r1 HTMLFileToES_loop_empty_result [OF assms(1,2)]
          del: HTMLFileToES_loop.simps(2))
  also have "\<dots> = Inr (r1 @ [(name, [])] @ r2)"
    by (subst HTMLFileToES_loop_results) (simp add: r2)
  finally show ?thesis
    by (simp add: HTMLFileToES_def HTMLFileToES_print_append o1 o2)
qed

theorem HTMLFileToES_empty_conversion_witness:
  "HTMLFileToES (\<lambda>x. ''?'') [\<lparr>tokens = [''color'', ''Bad'', ''123456'']\<rparr>]
     = Inr (''color'' @ [CHR 0x22] @ ''Bad'' @ [CHR 0x22, CHR 0x0A])"
proof -
  have h: "tokens \<lparr>tokens = [''color'', ''Bad'', ''123456'']\<rparr> = ''color'' # ''Bad'' # ''123456'' # []"
    by simp
  have e: "HTMLToES ''123456'' = Inr []" by code_simp
  have n: "HTMLFileToES (\<lambda>x. ''?'') [] = Inr []" by code_simp
  show ?thesis using HTMLFileToES_empty_conversion [OF h e n n] by simp
qed

end
